theory Spec2Isabelle
  imports Main
begin

section \<open>Lexical analysis (lexer.py)\<close>

subsection \<open>Tokens\<close>

text \<open>
  The enumeration \<open>TokenType\<close> of lexer.py, member by member. Two members are
  renamed because their names are HOL binder syntax: \<open>SUM\<close> is \<open>SUM_TOK\<close> and
  \<open>ALL\<close> is \<open>ALL_TOK\<close>.
\<close>

datatype TokenType =
    SELECT | SHOW | LIST | GET | FIND | COUNT | SUM_TOK | INSERT | UPDATE | DELETE
  | FROM | WHERE | AND | OR | ORDER | BY | GROUP | INTO | SET | VALUES
  | ALL_TOK | DISTINCT | UNIQUE | ASC | DESC
  | BETWEEN | IN | LIKE | CONTAINS
  | HOW | MANY | TOTAL
  | ALTER | TABLE | DROP | COLUMN
  | EQUALS | NOT_EQUALS | GREATER | LESS | GREATER_EQ | LESS_EQ
  | NUMBER | STRING | IDENTIFIER
  | COMMA | LPAREN | RPAREN | STAR
  | EOF | UNKNOWN

text \<open>The dataclass \<open>Token\<close>: its type, its value (the lexeme) and its position.\<close>

datatype Token = Token (tok_type: TokenType) (tok_value: string) (tok_position: nat)

subsection \<open>Character classes\<close>

text \<open>
  Python's \<open>str\<close> predicates on the ASCII range. A character outside ASCII is
  classified here as neither a digit, a letter nor white space, and \<open>lower\<close> leaves
  it alone: the development covers ASCII input.
\<close>

definition isdigit :: "char \<Rightarrow> bool" where
  "isdigit c = (c \<in> set ''0123456789'')"

definition isalpha :: "char \<Rightarrow> bool" where
  "isalpha c = (c \<in> set ''abcdefghijklmnopqrstuvwxyz'' \<or> c \<in> set ''ABCDEFGHIJKLMNOPQRSTUVWXYZ'')"

definition isalnum :: "char \<Rightarrow> bool" where
  "isalnum c = (isalpha c \<or> isdigit c)"

text \<open>\<open>str.isspace\<close>: tab, line feed, vertical tab, form feed, carriage return,
  the four separators 0x1C to 0x1F, and the space.\<close>

definition isspace :: "char \<Rightarrow> bool" where
  "isspace c = (c \<in> set [CHR 0x09, CHR 0x0A, CHR 0x0B, CHR 0x0C, CHR 0x0D,
                            CHR 0x1C, CHR 0x1D, CHR 0x1E, CHR 0x1F, CHR '' ''])"

definition lower_char :: "char \<Rightarrow> char" where
  "lower_char c =
     (case map_of (zip ''ABCDEFGHIJKLMNOPQRSTUVWXYZ'' ''abcdefghijklmnopqrstuvwxyz'') c of
        Some d \<Rightarrow> d
      | None \<Rightarrow> c)"

text \<open>\<open>str.lower\<close>, \<open>str.isdigit\<close> (false on the empty string) and \<open>str.strip\<close>.\<close>

definition lower :: "string \<Rightarrow> string" where
  "lower s = map lower_char s"

definition str_isdigit :: "string \<Rightarrow> bool" where
  "str_isdigit s = (s \<noteq> [] \<and> list_all isdigit s)"

definition strip :: "string \<Rightarrow> string" where
  "strip s = rev (dropWhile isspace (rev (dropWhile isspace s)))"

subsection \<open>Keyword and operator tables\<close>

definition KEYWORDS :: "(string \<times> TokenType) list" where
  "KEYWORDS =
    [(''select'', SELECT), (''show'', SELECT), (''list'', SELECT), (''get'', SELECT),
     (''find'', FIND), (''count'', COUNT), (''sum'', SUM_TOK), (''insert'', INSERT),
     (''update'', UPDATE), (''delete'', DELETE), (''remove'', DELETE),
     (''from'', FROM), (''of'', FROM), (''where'', WHERE), (''and'', AND), (''or'', OR),
     (''order'', ORDER), (''by'', BY), (''group'', GROUP), (''into'', INTO), (''set'', SET),
     (''values'', VALUES),
     (''all'', ALL_TOK), (''distinct'', DISTINCT), (''unique'', DISTINCT), (''asc'', ASC),
     (''ascending'', ASC), (''desc'', DESC), (''descending'', DESC),
     (''between'', BETWEEN), (''in'', IN), (''like'', LIKE), (''contains'', CONTAINS),
     (''how'', HOW), (''many'', MANY), (''total'', TOTAL),
     (''alter'', ALTER), (''table'', TABLE), (''drop'', DROP), (''column'', COLUMN),
     (''columns'', COLUMN), (''col'', COLUMN)]"

definition OPERATOR_PHRASES :: "(string \<times> string) list" where
  "OPERATOR_PHRASES =
    [(''greater than or equal to'', ''>=''),
     (''less than or equal to'', ''<=''),
     (''greater than'', ''>''),
     (''more than'', ''>''),
     (''less than'', ''<''),
     (''is equal to'', ''=''),
     (''equal to'', ''=''),
     (''equals'', ''=''),
     (''equal'', ''=''),
     (''same as'', ''=''),
     (''not equal to'', ''!=''),
     (''not equal'', ''!=''),
     (''different from'', ''!='')]"

subsection \<open>Preprocessing\<close>

text \<open>
  \<open>str.replace\<close>: the occurrences of \<open>old\<close> are found from the left and do not
  overlap. For an empty \<open>old\<close> Python puts \<open>new\<close> before every character and at
  the end.
\<close>

function replace_from :: "string \<Rightarrow> string \<Rightarrow> string \<Rightarrow> string" where
  "replace_from old new [] = []"
| "replace_from old new (c # cs) =
     (if old \<noteq> [] \<and> take (length old) (c # cs) = old
      then new @ replace_from old new (drop (length old) (c # cs))
      else c # replace_from old new cs)"
  by pat_completeness auto
termination
  by (relation "measure (\<lambda>(old, new, s). length s)") (auto simp: neq_Nil_conv)

definition replace :: "string \<Rightarrow> string \<Rightarrow> string \<Rightarrow> string" where
  "replace t old new =
     (if old = [] then new @ concat (map (\<lambda>c. c # new) t) else replace_from old new t)"

text \<open>\<open>re.sub(r'\s+', ' ', t)\<close>: every maximal run of white space becomes one space.\<close>

function collapse_ws :: "string \<Rightarrow> string" where
  "collapse_ws [] = []"
| "collapse_ws (c # cs) =
     (if isspace c then CHR '' '' # collapse_ws (dropWhile isspace cs)
      else c # collapse_ws cs)"
  by pat_completeness auto
termination
  by (relation "measure length") (auto simp: length_dropWhile_le less_Suc_eq_le)

text \<open>\<open>Lexer._preprocess\<close>: lowercase and strip, replace the phrases of the table in
  the table's order, each by its symbol between two spaces, then collapse white space.\<close>

definition preprocess :: "string \<Rightarrow> string" where
  "preprocess text =
     collapse_ws
       (foldl (\<lambda>t (phrase, symbol). replace t phrase ('' '' @ symbol @ '' ''))
          (strip (lower text)) OPERATOR_PHRASES)"

subsection \<open>Scanning\<close>

text \<open>
  The lexer's state is the pair of \<open>self.text\<close> and \<open>self.pos\<close>; the functions below
  carry the position and the rest of the text from that position on. Each reader returns
  its token, the position after it and the rest of the text.
\<close>

definition read_number :: "nat \<Rightarrow> string \<Rightarrow> Token \<times> nat \<times> string" where
  "read_number pos s =
     (let result = takeWhile (\<lambda>c. isdigit c \<or> c = CHR ''.'') s
      in (Token NUMBER result pos, pos + length result,
          dropWhile (\<lambda>c. isdigit c \<or> c = CHR ''.'') s))"

definition read_string :: "nat \<Rightarrow> string \<Rightarrow> Token \<times> nat \<times> string" where
  "read_string pos s =
     (let quote_char = hd s;
          result = takeWhile (\<lambda>c. c \<noteq> quote_char) (tl s);
          rest = dropWhile (\<lambda>c. c \<noteq> quote_char) (tl s)
      in if rest = [] then (Token STRING result pos, pos + 1 + length result, [])
         else (Token STRING result pos, pos + 1 + length result + 1, tl rest))"

definition read_word :: "nat \<Rightarrow> string \<Rightarrow> Token \<times> nat \<times> string" where
  "read_word pos s =
     (let result = takeWhile (\<lambda>c. isalnum c \<or> c = CHR ''_'') s;
          rest = dropWhile (\<lambda>c. isalnum c \<or> c = CHR ''_'') s
      in case map_of KEYWORDS (lower result) of
           Some k \<Rightarrow> (Token k result pos, pos + length result, rest)
         | None \<Rightarrow> (Token IDENTIFIER result pos, pos + length result, rest))"

definition operators :: "(char \<times> TokenType) list" where
  "operators =
     [(CHR ''='', EQUALS), (CHR ''>'', GREATER), (CHR ''<'', LESS), (CHR '','', COMMA),
      (CHR ''('', LPAREN), (CHR '')'', RPAREN), (CHR ''*'', STAR)]"

fun read_operator :: "nat \<Rightarrow> string \<Rightarrow> Token \<times> nat \<times> string" where
  "read_operator pos [] = (Token UNKNOWN [] pos, pos, [])"
| "read_operator pos (c # cs) =
     (if c = CHR ''>'' \<and> cs \<noteq> [] \<and> hd cs = CHR ''=''
        then (Token GREATER_EQ ''>='' pos, pos + 2, tl cs)
      else if c = CHR ''<'' \<and> cs \<noteq> [] \<and> hd cs = CHR ''=''
        then (Token LESS_EQ ''<='' pos, pos + 2, tl cs)
      else if c = CHR ''!'' \<and> cs \<noteq> [] \<and> hd cs = CHR ''=''
        then (Token NOT_EQUALS ''!='' pos, pos + 2, tl cs)
      else case map_of operators c of
             Some k \<Rightarrow> (Token k [c] pos, pos + 1, cs)
           | None \<Rightarrow> (Token UNKNOWN [c] pos, pos + 1, cs))"

text \<open>Every reader called by the loop takes at least one character.\<close>

lemma read_number_shorter:
  "s \<noteq> [] \<Longrightarrow> isdigit (hd s) \<Longrightarrow> read_number p s = (tok, p2, s2) \<Longrightarrow> length s2 < length s"
  by (cases s) (auto simp: read_number_def Let_def length_dropWhile_le less_Suc_eq_le)

lemma read_string_shorter:
  "s \<noteq> [] \<Longrightarrow> read_string p s = (tok, p2, s2) \<Longrightarrow> length s2 < length s"
proof (cases s)
  case Nil
  assume "s \<noteq> []"
  with Nil show ?thesis by simp
next
  case (Cons c cs)
  assume r: "read_string p s = (tok, p2, s2)"
  have "length (dropWhile (\<lambda>x. x \<noteq> c) cs) \<le> length cs"
    by (rule length_dropWhile_le)
  moreover have "s2 = [] \<or> s2 = tl (dropWhile (\<lambda>x. x \<noteq> c) cs)"
    using r Cons by (auto simp: read_string_def Let_def split: if_splits)
  ultimately show ?thesis using Cons by auto
qed

lemma read_word_shorter:
  "s \<noteq> [] \<Longrightarrow> isalpha (hd s) \<or> hd s = CHR ''_'' \<Longrightarrow> read_word p s = (tok, p2, s2)
   \<Longrightarrow> length s2 < length s"
  by (cases s)
     (auto simp: read_word_def Let_def isalnum_def length_dropWhile_le less_Suc_eq_le
           split: option.splits)

lemma read_operator_shorter:
  "s \<noteq> [] \<Longrightarrow> read_operator p s = (tok, p2, s2) \<Longrightarrow> length s2 < length s"
  by (cases s) (auto split: if_splits option.splits)

text \<open>
  The loop of \<open>Lexer.tokenize\<close>. The source appends each token to \<open>self.tokens\<close>; here
  the token is put in front of the tokens of the rest, which is the same list.
\<close>

function scan :: "nat \<Rightarrow> string \<Rightarrow> Token list" where
  "scan pos s =
     (if s = [] then [Token EOF [] pos]
      else
        let p1 = pos + length (takeWhile isspace s); s1 = dropWhile isspace s
        in if s1 = [] then [Token EOF [] p1]
           else if isdigit (hd s1) then
             (case read_number p1 s1 of (tok, p2, s2) \<Rightarrow> tok # scan p2 s2)
           else if hd s1 = CHR 0x22 \<or> hd s1 = CHR 0x27 then
             (case read_string p1 s1 of (tok, p2, s2) \<Rightarrow> tok # scan p2 s2)
           else if isalpha (hd s1) \<or> hd s1 = CHR ''_'' then
             (case read_word p1 s1 of (tok, p2, s2) \<Rightarrow> tok # scan p2 s2)
           else
             (case read_operator p1 s1 of (tok, p2, s2) \<Rightarrow>
                if tok_type tok \<noteq> UNKNOWN then tok # scan p2 s2 else scan p2 s2))"
  by pat_completeness auto
termination
proof (relation "measure (\<lambda>(pos, s). length s)", goal_cases)
  case 1
  show ?case by simp
next
  case (2 pos s p1 s1 tok y p2 s2)
  have rd: "read_number p1 s1 = (tok, p2, s2)"
    using 2(6)[symmetric] 2(7)[symmetric] by simp
  have "length s2 < length s1"
    by (rule read_number_shorter [OF 2(4) 2(5) rd])
  moreover have "length s1 \<le> length s"
    unfolding 2(3) by (rule length_dropWhile_le)
  ultimately show ?case by simp
next
  case (3 pos s p1 s1 tok y p2 s2)
  have rd: "read_string p1 s1 = (tok, p2, s2)"
    using 3(7)[symmetric] 3(8)[symmetric] by simp
  have "length s2 < length s1"
    by (rule read_string_shorter [OF 3(4) rd])
  moreover have "length s1 \<le> length s"
    unfolding 3(3) by (rule length_dropWhile_le)
  ultimately show ?case by simp
next
  case (4 pos s p1 s1 tok y p2 s2)
  have rd: "read_word p1 s1 = (tok, p2, s2)"
    using 4(8)[symmetric] 4(9)[symmetric] by simp
  have "length s2 < length s1"
    by (rule read_word_shorter [OF 4(4) 4(7) rd])
  moreover have "length s1 \<le> length s"
    unfolding 4(3) by (rule length_dropWhile_le)
  ultimately show ?case by simp
next
  case (5 pos s p1 s1 tok y p2 s2)
  have rd: "read_operator p1 s1 = (tok, p2, s2)"
    using 5(8)[symmetric] 5(9)[symmetric] by simp
  have "length s2 < length s1"
    by (rule read_operator_shorter [OF 5(4) rd])
  moreover have "length s1 \<le> length s"
    unfolding 5(3) by (rule length_dropWhile_le)
  ultimately show ?case by simp
next
  case (6 pos s p1 s1 tok y p2 s2)
  have rd: "read_operator p1 s1 = (tok, p2, s2)"
    using 6(8)[symmetric] 6(9)[symmetric] by simp
  have "length s2 < length s1"
    by (rule read_operator_shorter [OF 6(4) rd])
  moreover have "length s1 \<le> length s"
    unfolding 6(3) by (rule length_dropWhile_le)
  ultimately show ?case by simp
qed

declare scan.simps [simp del]
declare replace_from.simps [simp del]

text \<open>\<open>Lexer(text).tokenize()\<close>: the constructor preprocesses, the loop starts at 0.\<close>

definition tokenize :: "string \<Rightarrow> Token list" where
  "tokenize text = scan 0 (preprocess text)"

section \<open>Syntax analysis (syntax_parser.py)\<close>

subsection \<open>Values and their conversions\<close>

text \<open>
  The values a parse puts into the tree are Python integers, floats and strings. A float is
  kept as the lexeme it was read from: \<open>FloatV s\<close> stands for the double \<open>float(s)\<close>.
  Floating-point arithmetic is outside this development, so the text Python prints for
  such a double, \<open>str(float(s))\<close>, is a parameter \<open>fs\<close> of every function that needs it.
\<close>

datatype pyvalue = IntV int | FloatV string | StrV string

datatype error = ParseError string | ValueError | TypeError | IndexError

text \<open>The member names of the enumeration, as \<open>token_type.name\<close> gives them.\<close>

fun name :: "TokenType \<Rightarrow> string" where
  "name SELECT = ''SELECT''"
| "name SHOW = ''SHOW''"
| "name LIST = ''LIST''"
| "name GET = ''GET''"
| "name FIND = ''FIND''"
| "name COUNT = ''COUNT''"
| "name SUM_TOK = ''SUM''"
| "name INSERT = ''INSERT''"
| "name UPDATE = ''UPDATE''"
| "name DELETE = ''DELETE''"
| "name FROM = ''FROM''"
| "name WHERE = ''WHERE''"
| "name AND = ''AND''"
| "name OR = ''OR''"
| "name ORDER = ''ORDER''"
| "name BY = ''BY''"
| "name GROUP = ''GROUP''"
| "name INTO = ''INTO''"
| "name SET = ''SET''"
| "name VALUES = ''VALUES''"
| "name ALL_TOK = ''ALL''"
| "name DISTINCT = ''DISTINCT''"
| "name UNIQUE = ''UNIQUE''"
| "name ASC = ''ASC''"
| "name DESC = ''DESC''"
| "name BETWEEN = ''BETWEEN''"
| "name IN = ''IN''"
| "name LIKE = ''LIKE''"
| "name CONTAINS = ''CONTAINS''"
| "name HOW = ''HOW''"
| "name MANY = ''MANY''"
| "name TOTAL = ''TOTAL''"
| "name ALTER = ''ALTER''"
| "name TABLE = ''TABLE''"
| "name DROP = ''DROP''"
| "name COLUMN = ''COLUMN''"
| "name EQUALS = ''EQUALS''"
| "name NOT_EQUALS = ''NOT_EQUALS''"
| "name GREATER = ''GREATER''"
| "name LESS = ''LESS''"
| "name GREATER_EQ = ''GREATER_EQ''"
| "name LESS_EQ = ''LESS_EQ''"
| "name NUMBER = ''NUMBER''"
| "name STRING = ''STRING''"
| "name IDENTIFIER = ''IDENTIFIER''"
| "name COMMA = ''COMMA''"
| "name LPAREN = ''LPAREN''"
| "name RPAREN = ''RPAREN''"
| "name STAR = ''STAR''"
| "name EOF = ''EOF''"
| "name UNKNOWN = ''UNKNOWN''"

text \<open>
  The literals \<open>int()\<close> and \<open>float()\<close> accept, on ASCII text: white space around (the C
  white space, without the separators 0x1C to 0x1F), a sign, digits with single
  underscores between them; for a float also a point, an exponent, and the words
  \<open>inf\<close>, \<open>infinity\<close> and \<open>nan\<close> in any case. The limit Python may put on the number of
  digits of an integer literal is left out.
\<close>

definition c_isspace :: "char \<Rightarrow> bool" where
  "c_isspace c = (c \<in> set [CHR 0x09, CHR 0x0A, CHR 0x0B, CHR 0x0C, CHR 0x0D, CHR '' ''])"

definition c_strip :: "string \<Rightarrow> string" where
  "c_strip s = rev (dropWhile c_isspace (rev (dropWhile c_isspace s)))"

definition drop_sign :: "string \<Rightarrow> string" where
  "drop_sign s = (if s \<noteq> [] \<and> (hd s = CHR ''+'' \<or> hd s = CHR ''-'') then tl s else s)"

fun digitpart :: "string \<Rightarrow> bool" where
  "digitpart [] = False"
| "digitpart [c] = isdigit c"
| "digitpart (c # d # cs) =
     (isdigit c \<and> (if d = CHR ''_'' then digitpart cs else digitpart (d # cs)))"

definition pointfloat :: "string \<Rightarrow> bool" where
  "pointfloat s =
     (let a = takeWhile (\<lambda>c. c \<noteq> CHR ''.'') s; r = dropWhile (\<lambda>c. c \<noteq> CHR ''.'') s
      in if r = [] then digitpart a
         else (a = [] \<and> digitpart (tl r)) \<or> (digitpart a \<and> (tl r = [] \<or> digitpart (tl r))))"

definition floatnumber :: "string \<Rightarrow> bool" where
  "floatnumber s =
     (let m = takeWhile (\<lambda>c. c \<noteq> CHR ''e'' \<and> c \<noteq> CHR ''E'') s;
          r = dropWhile (\<lambda>c. c \<noteq> CHR ''e'' \<and> c \<noteq> CHR ''E'') s
      in if r = [] then pointfloat m else pointfloat m \<and> digitpart (drop_sign (tl r)))"

definition float_accepts :: "string \<Rightarrow> bool" where
  "float_accepts s =
     (let u = drop_sign (c_strip s)
      in lower u \<in> set [''inf'', ''infinity'', ''nan''] \<or> floatnumber u)"

definition digit_value :: "char \<Rightarrow> int" where
  "digit_value c = int (of_char c) - 48"

definition int_accepts :: "string \<Rightarrow> bool" where
  "int_accepts s = digitpart (drop_sign (c_strip s))"

definition int_value :: "string \<Rightarrow> int" where
  "int_value s =
     (let t = c_strip s;
          n = foldl (\<lambda>a c. 10 * a + digit_value c) 0 (filter (\<lambda>c. c \<noteq> CHR ''_'') (drop_sign t))
      in if t \<noteq> [] \<and> hd t = CHR ''-'' then - n else n)"

definition py_int :: "string \<Rightarrow> error + int" where
  "py_int s = (if int_accepts s then Inr (int_value s) else Inl ValueError)"

definition py_float :: "string \<Rightarrow> error + pyvalue" where
  "py_float s = (if float_accepts s then Inr (FloatV s) else Inl ValueError)"

text \<open>\<open>str()\<close> of an integer, and of a value.\<close>

function str_nat :: "nat \<Rightarrow> string" where
  "str_nat n =
     (if n < 10 then [char_of (48 + n)] else str_nat (n div 10) @ [char_of (48 + n mod 10)])"
  by pat_completeness auto
termination
  by (relation "measure id") auto

declare str_nat.simps [simp del]

definition str_int :: "int \<Rightarrow> string" where
  "str_int i = (if i < 0 then CHR ''-'' # str_nat (nat (- i)) else str_nat (nat i))"

definition py_str :: "(string \<Rightarrow> string) \<Rightarrow> pyvalue \<Rightarrow> string" where
  "py_str fs v = (case v of IntV i \<Rightarrow> str_int i | FloatV s \<Rightarrow> fs s | StrV s \<Rightarrow> s)"

subsection \<open>The tree\<close>

datatype ConditionNode =
    SimpleCondition string string pyvalue
  | AndCondition ConditionNode ConditionNode
  | OrCondition ConditionNode ConditionNode
  | BetweenCondition string pyvalue pyvalue
  | InCondition string "pyvalue list"
  | LikeCondition string string

datatype WhereNode = WhereNode ConditionNode

datatype OrderByNode = OrderByNode string string

datatype GroupByNode = GroupByNode string

datatype AggregateNode = AggregateNode string "string option"

text \<open>
  The statement nodes, with their fields in the order of the dataclasses:
  \<open>SelectNode columns table where order_by group_by distinct aggregate\<close>,
  \<open>InsertNode table values columns\<close>, \<open>UpdateNode table set_column set_value where\<close>,
  \<open>DeleteNode table where\<close> and \<open>AlterTableNode table action columns\<close>.
  The dataclass declares the table of a \<open>SelectNode\<close> a string and its columns strings, but
  the parser also stores \<open>None\<close> there, so both are optional here.
\<close>

datatype ASTNode =
    SelectNode "string option list" "string option" "WhereNode option" "OrderByNode option"
      "GroupByNode option" bool "AggregateNode option"
  | InsertNode string "pyvalue list" "string list option"
  | UpdateNode string string pyvalue "WhereNode option"
  | DeleteNode string "WhereNode option"
  | AlterTableNode string string "string list"

subsection \<open>The parser's state\<close>

text \<open>
  The parser's state is the token list, which never changes, and \<open>self.pos\<close>. Every
  parsing function takes the list and the position and returns an error or its result
  with the new position. A function with a loop that need not end returns an option, and
  \<open>None\<close> says that it does not return.

  \<open>_current_token\<close> reads \<open>self.tokens[-1]\<close> past the end. On the empty list that raises
  IndexError; \<open>parse\<close> below returns that error before anything else reads a token.
\<close>

definition current_token :: "Token list \<Rightarrow> nat \<Rightarrow> Token" where
  "current_token ts pos = (if pos \<ge> length ts then last ts else ts ! pos)"

definition match :: "Token list \<Rightarrow> nat \<Rightarrow> TokenType list \<Rightarrow> bool" where
  "match ts pos types = (tok_type (current_token ts pos) \<in> set types)"

definition expect :: "Token list \<Rightarrow> nat \<Rightarrow> TokenType \<Rightarrow> error + Token \<times> nat" where
  "expect ts pos token_type =
     (if \<not> match ts pos [token_type]
      then Inl (ParseError (''Expected '' @ name token_type @ '', got '' @
                            name (tok_type (current_token ts pos))))
      else Inr (current_token ts pos, pos + 1))"

subsection \<open>Clauses\<close>

definition parse_from :: "Token list \<Rightarrow> nat \<Rightarrow> bool \<Rightarrow> error + string option \<times> nat" where
  "parse_from ts pos allow_missing =
     (if \<not> match ts pos [FROM] \<and> \<not> allow_missing \<and> \<not> match ts pos [IDENTIFIER]
      then Inl (ParseError ''Expected table name after FROM'')
      else
        let pos1 = (if match ts pos [FROM] then pos + 1 else pos)
        in if match ts pos1 [IDENTIFIER]
           then Inr (Some (tok_value (current_token ts pos1)), pos1 + 1)
           else if \<not> allow_missing then Inl (ParseError ''Expected table name after FROM'')
           else Inr (None, pos1))"

definition op_map :: "(TokenType \<times> string) list" where
  "op_map =
     [(EQUALS, ''=''), (NOT_EQUALS, ''!=''), (GREATER, ''>''), (LESS, ''<''),
      (GREATER_EQ, ''>=''), (LESS_EQ, ''<='')]"

definition parse_operator :: "Token list \<Rightarrow> nat \<Rightarrow> error + string \<times> nat" where
  "parse_operator ts pos =
     (case map_of op_map (tok_type (current_token ts pos)) of
        Some op \<Rightarrow> Inr (op, pos + 1)
      | None \<Rightarrow>
          Inl (ParseError (''Expected operator, got '' @ name (tok_type (current_token ts pos)))))"

definition parse_value :: "Token list \<Rightarrow> nat \<Rightarrow> error + pyvalue \<times> nat" where
  "parse_value ts pos =
     (let token = current_token ts pos
      in if tok_type token = NUMBER then
           (if CHR ''.'' \<in> set (tok_value token)
            then (case py_float (tok_value token) of
                    Inl e \<Rightarrow> Inl e | Inr v \<Rightarrow> Inr (v, pos + 1))
            else (case py_int (tok_value token) of
                    Inl e \<Rightarrow> Inl e | Inr i \<Rightarrow> Inr (IntV i, pos + 1)))
         else if tok_type token = STRING then Inr (StrV (tok_value token), pos + 1)
         else if tok_type token = IDENTIFIER then Inr (StrV (tok_value token), pos + 1)
         else Inl (ParseError (''Expected value, got '' @ name (tok_type token))))"

text \<open>The loop of \<open>_parse_value_list\<close>: after each comma one more value.\<close>

partial_function (option) value_list_loop ::
  "Token list \<Rightarrow> nat \<Rightarrow> pyvalue list \<Rightarrow> (error + pyvalue list \<times> nat) option" where
  "value_list_loop ts pos vals =
     (if match ts pos [COMMA]
      then (case parse_value ts (pos + 1) of
              Inl e \<Rightarrow> Some (Inl e)
            | Inr (v, pos1) \<Rightarrow> value_list_loop ts pos1 (vals @ [v]))
      else Some (Inr (vals, pos)))"

declare value_list_loop.simps [code]

definition parse_value_list :: "Token list \<Rightarrow> nat \<Rightarrow> (error + pyvalue list \<times> nat) option" where
  "parse_value_list ts pos =
     (let has_paren = match ts pos [LPAREN];
          pos1 = (if has_paren then pos + 1 else pos)
      in case parse_value ts pos1 of
           Inl e \<Rightarrow> Some (Inl e)
         | Inr (v, pos2) \<Rightarrow>
             (case value_list_loop ts pos2 [v] of
                None \<Rightarrow> None
              | Some (Inl e) \<Rightarrow> Some (Inl e)
              | Some (Inr (vals, pos3)) \<Rightarrow>
                  Some (Inr (vals, if has_paren \<and> match ts pos3 [RPAREN] then pos3 + 1 else pos3))))"

subsection \<open>Conditions\<close>

definition parse_simple_condition ::
  "(string \<Rightarrow> string) \<Rightarrow> Token list \<Rightarrow> nat \<Rightarrow> (error + ConditionNode \<times> nat) option" where
  "parse_simple_condition fs ts pos =
     (if \<not> match ts pos [IDENTIFIER]
      then Some (Inl (ParseError ''Expected column name in condition''))
      else
        let column = tok_value (current_token ts pos); pos1 = pos + 1
        in if match ts pos1 [BETWEEN] then
             (case parse_value ts (pos1 + 1) of
                Inl e \<Rightarrow> Some (Inl e)
              | Inr (low, pos2) \<Rightarrow>
                  (case expect ts pos2 AND of
                     Inl e \<Rightarrow> Some (Inl e)
                   | Inr (tok, pos3) \<Rightarrow>
                       (case parse_value ts pos3 of
                          Inl e \<Rightarrow> Some (Inl e)
                        | Inr (high, pos4) \<Rightarrow>
                            Some (Inr (BetweenCondition column low high, pos4)))))
           else if match ts pos1 [IN] then
             (case parse_value_list ts (pos1 + 1) of
                None \<Rightarrow> None
              | Some (Inl e) \<Rightarrow> Some (Inl e)
              | Some (Inr (vals, pos2)) \<Rightarrow> Some (Inr (InCondition column vals, pos2)))
           else if match ts pos1 [LIKE, CONTAINS] then
             (case parse_value ts (pos1 + 1) of
                Inl e \<Rightarrow> Some (Inl e)
              | Inr (pattern, pos2) \<Rightarrow>
                  Some (Inr (LikeCondition column (py_str fs pattern), pos2)))
           else
             (case parse_operator ts pos1 of
                Inl e \<Rightarrow> Some (Inl e)
              | Inr (op, pos2) \<Rightarrow>
                  (case parse_value ts pos2 of
                     Inl e \<Rightarrow> Some (Inl e)
                   | Inr (v, pos3) \<Rightarrow> Some (Inr (SimpleCondition column op v, pos3)))))"

text \<open>The loop of \<open>_parse_condition\<close>: \<open>left\<close> is the tree built so far.\<close>

partial_function (option) condition_loop ::
  "(string \<Rightarrow> string) \<Rightarrow> Token list \<Rightarrow> nat \<Rightarrow> ConditionNode
     \<Rightarrow> (error + ConditionNode \<times> nat) option" where
  "condition_loop fs ts pos left =
     (if match ts pos [AND, OR]
      then (case parse_simple_condition fs ts (pos + 1) of
              None \<Rightarrow> None
            | Some (Inl e) \<Rightarrow> Some (Inl e)
            | Some (Inr (right, pos1)) \<Rightarrow>
                if tok_type (current_token ts pos) = AND
                then condition_loop fs ts pos1 (AndCondition left right)
                else condition_loop fs ts pos1 (OrCondition left right))
      else Some (Inr (left, pos)))"

declare condition_loop.simps [code]

definition parse_condition ::
  "(string \<Rightarrow> string) \<Rightarrow> Token list \<Rightarrow> nat \<Rightarrow> (error + ConditionNode \<times> nat) option" where
  "parse_condition fs ts pos =
     (case parse_simple_condition fs ts pos of
        None \<Rightarrow> None
      | Some (Inl e) \<Rightarrow> Some (Inl e)
      | Some (Inr (left, pos1)) \<Rightarrow> condition_loop fs ts pos1 left)"

definition parse_where ::
  "(string \<Rightarrow> string) \<Rightarrow> Token list \<Rightarrow> nat \<Rightarrow> (error + WhereNode \<times> nat) option" where
  "parse_where fs ts pos =
     (case parse_condition fs ts (pos + 1) of
        None \<Rightarrow> None
      | Some (Inl e) \<Rightarrow> Some (Inl e)
      | Some (Inr (condition, pos1)) \<Rightarrow> Some (Inr (WhereNode condition, pos1)))"

text \<open>
  The statement parsers all end the same way: \<open>where = None\<close>, and a \<open>WHERE\<close> token
  starts a where clause. That step is written once here.
\<close>

definition parse_optional_where ::
  "(string \<Rightarrow> string) \<Rightarrow> Token list \<Rightarrow> nat \<Rightarrow> (error + WhereNode option \<times> nat) option" where
  "parse_optional_where fs ts pos =
     (if match ts pos [WHERE]
      then (case parse_where fs ts pos of
              None \<Rightarrow> None
            | Some (Inl e) \<Rightarrow> Some (Inl e)
            | Some (Inr (w, pos1)) \<Rightarrow> Some (Inr (Some w, pos1)))
      else Some (Inr (None, pos)))"

definition parse_order_by :: "Token list \<Rightarrow> nat \<Rightarrow> error + OrderByNode \<times> nat" where
  "parse_order_by ts pos =
     (case expect ts (pos + 1) BY of
        Inl e \<Rightarrow> Inl e
      | Inr (tok, pos1) \<Rightarrow>
          let column = (if \<not> match ts pos1 [IDENTIFIER] then ''id''
                        else tok_value (current_token ts pos1));
              pos2 = (if \<not> match ts pos1 [IDENTIFIER] then pos1 else pos1 + 1)
          in if match ts pos2 [ASC] then Inr (OrderByNode column ''ASC'', pos2 + 1)
             else if match ts pos2 [DESC] then Inr (OrderByNode column ''DESC'', pos2 + 1)
             else Inr (OrderByNode column ''ASC'', pos2))"

definition parse_group_by :: "Token list \<Rightarrow> nat \<Rightarrow> error + GroupByNode \<times> nat" where
  "parse_group_by ts pos =
     (case expect ts (pos + 1) BY of
        Inl e \<Rightarrow> Inl e
      | Inr (tok, pos1) \<Rightarrow>
          if \<not> match ts pos1 [IDENTIFIER]
          then Inl (ParseError ''Expected column name after GROUP BY'')
          else Inr (GroupByNode (tok_value (current_token ts pos1)), pos1 + 1))"

subsection \<open>Statements\<close>

text \<open>
  The loop over a column list, in \<open>_parse_select\<close> and in \<open>_parse_drop_column\<close>: it takes a
  comma, then an identifier if one follows. \<open>cols\<close> holds the identifiers the loop has
  appended so far; the caller puts them after the first column. When the token list ends
  in a comma the source's loop never ends, because past the end the current token stays
  the last one.
\<close>

partial_function (option) column_loop ::
  "Token list \<Rightarrow> nat \<Rightarrow> string list \<Rightarrow> (string list \<times> nat) option" where
  "column_loop ts pos cols =
     (if match ts pos [COMMA]
      then (if match ts (pos + 1) [IDENTIFIER]
            then column_loop ts (pos + 2) (cols @ [tok_value (current_token ts (pos + 1))])
            else column_loop ts (pos + 1) cols)
      else Some (cols, pos))"

declare column_loop.simps [code]

text \<open>
  \<open>_parse_select\<close> up to the table: the columns, the table and the position after them.
  The name is not the source's; the function is the first half of \<open>_parse_select\<close>.
\<close>

definition select_columns_table ::
  "Token list \<Rightarrow> nat \<Rightarrow> (error + (string option list \<times> string option) \<times> nat) option" where
  "select_columns_table ts pos =
     (if match ts pos [ALL_TOK] \<or> match ts pos [STAR] then
        (case parse_from ts (pos + 1) False of
           Inl e \<Rightarrow> Some (Inl e)
         | Inr (table, pos1) \<Rightarrow> Some (Inr (([Some ''*''], table), pos1)))
      else
        let first_identifier =
              (if match ts pos [IDENTIFIER] then Some (tok_value (current_token ts pos))
               else None);
            pos1 = (if match ts pos [IDENTIFIER] then pos + 1 else pos)
        in if match ts pos1 [COMMA] then
             (case column_loop ts pos1 [] of
                None \<Rightarrow> None
              | Some (more, pos2) \<Rightarrow>
                  (case parse_from ts pos2 False of
                     Inl e \<Rightarrow> Some (Inl e)
                   | Inr (table, pos3) \<Rightarrow>
                       Some (Inr ((first_identifier # map Some more, table), pos3))))
           else if match ts pos1 [FROM] then
             (case parse_from ts pos1 False of
                Inl e \<Rightarrow> Some (Inl e)
              | Inr (table, pos2) \<Rightarrow> Some (Inr (([first_identifier], table), pos2)))
           else if match ts pos1 [WHERE, ORDER, GROUP, EOF] then
             Some (Inr (([Some ''*''], first_identifier), pos1))
           else
             (case parse_from ts pos1 True of
                Inl e \<Rightarrow> Some (Inl e)
              | Inr (table, pos2) \<Rightarrow>
                  if table = None then Some (Inr (([Some ''*''], first_identifier), pos2))
                  else Some (Inr ((if first_identifier \<noteq> None \<and> first_identifier \<noteq> Some []
                                   then [first_identifier] else [Some ''*''], table), pos2))))"

definition parse_select ::
  "(string \<Rightarrow> string) \<Rightarrow> Token list \<Rightarrow> nat \<Rightarrow> (error + ASTNode \<times> nat) option" where
  "parse_select fs ts pos =
     (let is_distinct = match ts (pos + 1) [DISTINCT];
          pos1 = (if is_distinct then pos + 2 else pos + 1)
      in case select_columns_table ts pos1 of
           None \<Rightarrow> None
         | Some (Inl e) \<Rightarrow> Some (Inl e)
         | Some (Inr ((columns, table), pos2)) \<Rightarrow>
             (case parse_optional_where fs ts pos2 of
                None \<Rightarrow> None
              | Some (Inl e) \<Rightarrow> Some (Inl e)
              | Some (Inr (where_node, pos3)) \<Rightarrow>
                  (case (if match ts pos3 [ORDER]
                         then (case parse_order_by ts pos3 of
                                 Inl e \<Rightarrow> Inl e | Inr (ob, q) \<Rightarrow> Inr (Some ob, q))
                         else Inr (None, pos3)) of
                     Inl e \<Rightarrow> Some (Inl e)
                   | Inr (order_by, pos4) \<Rightarrow>
                       (case (if match ts pos4 [GROUP]
                              then (case parse_group_by ts pos4 of
                                      Inl e \<Rightarrow> Inl e | Inr (gb, q) \<Rightarrow> Inr (Some gb, q))
                              else Inr (None, pos4)) of
                          Inl e \<Rightarrow> Some (Inl e)
                        | Inr (group_by, pos5) \<Rightarrow>
                            Some (Inr (SelectNode columns table where_node order_by group_by
                                         is_distinct None, pos5))))))"

text \<open>
  \<open>_parse_count\<close> and \<open>_parse_sum\<close> read an optional identifier, then an optional \<open>FROM\<close>
  with an optional identifier that replaces it as the table. \<open>target_table\<close> is that
  common step: the identifier, the table and the position.
\<close>

definition target_table :: "Token list \<Rightarrow> nat \<Rightarrow> string option \<times> string option \<times> nat" where
  "target_table ts pos =
     (let target = (if match ts pos [IDENTIFIER] then Some (tok_value (current_token ts pos))
                    else None);
          pos1 = (if match ts pos [IDENTIFIER] then pos + 1 else pos)
      in if match ts pos1 [FROM]
         then (if match ts (pos1 + 1) [IDENTIFIER]
               then (target, Some (tok_value (current_token ts (pos1 + 1))), pos1 + 2)
               else (target, target, pos1 + 1))
         else (target, target, pos1))"

definition parse_count ::
  "(string \<Rightarrow> string) \<Rightarrow> Token list \<Rightarrow> nat \<Rightarrow> (error + ASTNode \<times> nat) option" where
  "parse_count fs ts pos =
     (let pos1 = (if match ts (pos + 1) [MANY] then pos + 2 else pos + 1)
      in case target_table ts pos1 of
           (target, table, pos2) \<Rightarrow>
             (case parse_optional_where fs ts pos2 of
                None \<Rightarrow> None
              | Some (Inl e) \<Rightarrow> Some (Inl e)
              | Some (Inr (where_node, pos3)) \<Rightarrow>
                  Some (Inr (SelectNode [Some ''COUNT(*)''] table where_node None None False
                               (Some (AggregateNode ''COUNT'' None)), pos3))))"

definition parse_sum ::
  "(string \<Rightarrow> string) \<Rightarrow> Token list \<Rightarrow> nat \<Rightarrow> (error + ASTNode \<times> nat) option" where
  "parse_sum fs ts pos =
     (case target_table ts (pos + 1) of
        (column, table, pos2) \<Rightarrow>
          (case parse_optional_where fs ts pos2 of
             None \<Rightarrow> None
           | Some (Inl e) \<Rightarrow> Some (Inl e)
           | Some (Inr (where_node, pos3)) \<Rightarrow>
               Some (Inr (SelectNode
                            [Some (if column \<noteq> None \<and> column \<noteq> Some []
                                   then ''SUM('' @ the column @ '')'' else ''SUM(*)'')]
                            table where_node None None False
                            (Some (AggregateNode ''SUM'' column)), pos3))))"

definition parse_find ::
  "(string \<Rightarrow> string) \<Rightarrow> Token list \<Rightarrow> nat \<Rightarrow> (error + ASTNode \<times> nat) option" where
  "parse_find fs ts pos =
     (let table = (if match ts (pos + 1) [IDENTIFIER]
                   then Some (tok_value (current_token ts (pos + 1))) else None);
          pos1 = (if match ts (pos + 1) [IDENTIFIER] then pos + 2 else pos + 1)
      in case parse_optional_where fs ts pos1 of
           None \<Rightarrow> None
         | Some (Inl e) \<Rightarrow> Some (Inl e)
         | Some (Inr (where_node, pos2)) \<Rightarrow>
             Some (Inr (SelectNode [Some ''*''] table where_node None None False None, pos2)))"

definition parse_insert :: "Token list \<Rightarrow> nat \<Rightarrow> (error + ASTNode \<times> nat) option" where
  "parse_insert ts pos =
     (case expect ts (pos + 1) INTO of
        Inl e \<Rightarrow> Some (Inl e)
      | Inr (tok, pos1) \<Rightarrow>
          if \<not> match ts pos1 [IDENTIFIER]
          then Some (Inl (ParseError ''Expected table name after INSERT INTO''))
          else (case expect ts (pos1 + 1) VALUES of
                  Inl e \<Rightarrow> Some (Inl e)
                | Inr (tok2, pos2) \<Rightarrow>
                    (case parse_value_list ts pos2 of
                       None \<Rightarrow> None
                     | Some (Inl e) \<Rightarrow> Some (Inl e)
                     | Some (Inr (vals, pos3)) \<Rightarrow>
                         Some (Inr (InsertNode (tok_value (current_token ts pos1)) vals None,
                                    pos3)))))"

definition parse_update ::
  "(string \<Rightarrow> string) \<Rightarrow> Token list \<Rightarrow> nat \<Rightarrow> (error + ASTNode \<times> nat) option" where
  "parse_update fs ts pos =
     (if \<not> match ts (pos + 1) [IDENTIFIER]
      then Some (Inl (ParseError ''Expected table name after UPDATE''))
      else (case expect ts (pos + 2) SET of
              Inl e \<Rightarrow> Some (Inl e)
            | Inr (tok, pos1) \<Rightarrow>
                if \<not> match ts pos1 [IDENTIFIER]
                then Some (Inl (ParseError ''Expected column name after SET''))
                else (case expect ts (pos1 + 1) EQUALS of
                        Inl e \<Rightarrow> Some (Inl e)
                      | Inr (tok2, pos2) \<Rightarrow>
                          (case parse_value ts pos2 of
                             Inl e \<Rightarrow> Some (Inl e)
                           | Inr (set_value, pos3) \<Rightarrow>
                               (case parse_optional_where fs ts pos3 of
                                  None \<Rightarrow> None
                                | Some (Inl e) \<Rightarrow> Some (Inl e)
                                | Some (Inr (where_node, pos4)) \<Rightarrow>
                                    Some (Inr (UpdateNode
                                                 (tok_value (current_token ts (pos + 1)))
                                                 (tok_value (current_token ts pos1))
                                                 set_value where_node, pos4)))))))"

definition parse_drop_column :: "Token list \<Rightarrow> nat \<Rightarrow> (error + ASTNode \<times> nat) option" where
  "parse_drop_column ts pos =
     (case (if match ts (pos + 1) [IDENTIFIER]
            then map_option (\<lambda>(more, q). (tok_value (current_token ts (pos + 1)) # more, q))
                   (column_loop ts (pos + 2) [])
            else Some ([], pos + 1)) of
        None \<Rightarrow> None
      | Some (columns, pos1) \<Rightarrow>
          (case expect ts pos1 FROM of
             Inl e \<Rightarrow> Some (Inl e)
           | Inr (tok, pos2) \<Rightarrow>
               if \<not> match ts pos2 [IDENTIFIER]
               then Some (Inl (ParseError ''Expected table name after FROM''))
               else Some (Inr (AlterTableNode (tok_value (current_token ts pos2))
                                 ''DROP COLUMN'' columns, pos2 + 1))))"

definition parse_delete ::
  "(string \<Rightarrow> string) \<Rightarrow> Token list \<Rightarrow> nat \<Rightarrow> (error + ASTNode \<times> nat) option" where
  "parse_delete fs ts pos =
     (if match ts (pos + 1) [COLUMN] then parse_drop_column ts (pos + 1)
      else
        let pos1 = (if match ts (pos + 1) [FROM] then pos + 2 else pos + 1)
        in if \<not> match ts pos1 [IDENTIFIER]
           then Some (Inl (ParseError ''Expected table name after DELETE FROM''))
           else (case parse_optional_where fs ts (pos1 + 1) of
                   None \<Rightarrow> None
                 | Some (Inl e) \<Rightarrow> Some (Inl e)
                 | Some (Inr (where_node, pos2)) \<Rightarrow>
                     Some (Inr (DeleteNode (tok_value (current_token ts pos1)) where_node,
                                pos2))))"

definition parse_alter :: "Token list \<Rightarrow> nat \<Rightarrow> (error + ASTNode \<times> nat) option" where
  "parse_alter ts pos =
     (case expect ts (pos + 1) TABLE of
        Inl e \<Rightarrow> Some (Inl e)
      | Inr (tok, pos1) \<Rightarrow>
          if \<not> match ts pos1 [IDENTIFIER]
          then Some (Inl (ParseError ''Expected table name after ALTER TABLE''))
          else (case expect ts (pos1 + 1) DROP of
                  Inl e \<Rightarrow> Some (Inl e)
                | Inr (tok2, pos2) \<Rightarrow>
                    (case expect ts pos2 COLUMN of
                       Inl e \<Rightarrow> Some (Inl e)
                     | Inr (tok3, pos3) \<Rightarrow>
                         if match ts pos3 [IDENTIFIER]
                         then Some (Inr (AlterTableNode (tok_value (current_token ts pos1))
                                           ''DROP COLUMN'' [tok_value (current_token ts pos3)],
                                         pos3 + 1))
                         else Some (Inr (AlterTableNode (tok_value (current_token ts pos1))
                                           ''DROP COLUMN'' [], pos3)))))"

text \<open>
  \<open>Parser(tokens).parse()\<close>: the statement the first token selects, without the final
  position. \<open>None\<close>: the parser does not return.
\<close>

definition parse :: "(string \<Rightarrow> string) \<Rightarrow> Token list \<Rightarrow> (error + ASTNode) option" where
  "parse fs ts =
     (if ts = [] then Some (Inl IndexError)
      else
        map_option (map_sum id fst)
          (if match ts 0 [SELECT] then parse_select fs ts 0
           else if match ts 0 [COUNT] \<or> match ts 0 [HOW] then parse_count fs ts 0
           else if match ts 0 [SUM_TOK, TOTAL] then parse_sum fs ts 0
           else if match ts 0 [FIND] then parse_find fs ts 0
           else if match ts 0 [INSERT] then parse_insert ts 0
           else if match ts 0 [UPDATE] then parse_update fs ts 0
           else if match ts 0 [DELETE] then parse_delete fs ts 0
           else if match ts 0 [ALTER] then parse_alter ts 0
           else Some (Inl (ParseError (''Unexpected token: '' @ name (tok_type (current_token ts 0))
                             @ '' '' @ [CHR 0x27] @ tok_value (current_token ts 0) @ [CHR 0x27])))))"

section \<open>SQL generation and the pipeline (pipeline.py)\<close>

text \<open>\<open>sep.join(xs)\<close> on strings.\<close>

fun join :: "string \<Rightarrow> string list \<Rightarrow> string" where
  "join sep [] = []"
| "join sep [x] = x"
| "join sep (x # y # ys) = x @ sep @ join sep (y # ys)"

definition format_value :: "(string \<Rightarrow> string) \<Rightarrow> pyvalue \<Rightarrow> string" where
  "format_value fs v =
     (case v of
        StrV s \<Rightarrow>
          if str_isdigit s \<or> (s \<noteq> [] \<and> hd s = CHR ''-'' \<and> str_isdigit (tl s)) then s
          else if float_accepts s then s
          else [CHR 0x27] @ s @ [CHR 0x27]
      | IntV i \<Rightarrow> py_str fs v
      | FloatV x \<Rightarrow> py_str fs v)"

fun condition_to_sql :: "(string \<Rightarrow> string) \<Rightarrow> ConditionNode \<Rightarrow> string" where
  "condition_to_sql fs (SimpleCondition column operator v) =
     column @ '' '' @ operator @ '' '' @ format_value fs v"
| "condition_to_sql fs (AndCondition left right) =
     condition_to_sql fs left @ '' AND '' @ condition_to_sql fs right"
| "condition_to_sql fs (OrCondition left right) =
     ''('' @ condition_to_sql fs left @ '' OR '' @ condition_to_sql fs right @ '')''"
| "condition_to_sql fs (BetweenCondition column low high) =
     column @ '' BETWEEN '' @ py_str fs low @ '' AND '' @ py_str fs high"
| "condition_to_sql fs (InCondition column vals) =
     column @ '' IN ('' @ join '', '' (map (format_value fs) vals) @ '')''"
| "condition_to_sql fs (LikeCondition column pattern) =
     column @ '' LIKE '' @ [CHR 0x27] @
       (if CHR ''%'' \<notin> set pattern then ''%'' @ pattern @ ''%'' else pattern) @ [CHR 0x27]"

text \<open>
  The where clause the statements add: nothing for \<open>None\<close>. A format string prints \<open>None\<close>
  for a missing table; \<open>join\<close> raises TypeError on a column that is \<open>None\<close>.
\<close>

definition where_sql :: "(string \<Rightarrow> string) \<Rightarrow> WhereNode option \<Rightarrow> string" where
  "where_sql fs w =
     (case w of None \<Rightarrow> [] | Some (WhereNode c) \<Rightarrow> '' WHERE '' @ condition_to_sql fs c)"

definition str_opt :: "string option \<Rightarrow> string" where
  "str_opt x = (case x of None \<Rightarrow> ''None'' | Some s \<Rightarrow> s)"

fun ast_to_sql :: "(string \<Rightarrow> string) \<Rightarrow> ASTNode \<Rightarrow> error + string" where
  "ast_to_sql fs (SelectNode columns table where_node order_by group_by is_distinct aggregate) =
     (if None \<in> set columns then Inl TypeError
      else Inr (''SELECT '' @ (if is_distinct then ''DISTINCT '' else []) @
                join '', '' (map the columns) @ '' FROM '' @ str_opt table @
                where_sql fs where_node @
                (case order_by of
                   None \<Rightarrow> []
                 | Some (OrderByNode column direction) \<Rightarrow>
                     '' ORDER BY '' @ column @ '' '' @ direction) @
                (case group_by of
                   None \<Rightarrow> []
                 | Some (GroupByNode column) \<Rightarrow> '' GROUP BY '' @ column) @
                '';''))"
| "ast_to_sql fs (InsertNode table vals columns) =
     Inr (''INSERT INTO '' @ table @ '' VALUES ('' @ join '', '' (map (format_value fs) vals) @
          '');'')"
| "ast_to_sql fs (UpdateNode table set_column set_value where_node) =
     Inr (''UPDATE '' @ table @ '' SET '' @ set_column @ '' = '' @ format_value fs set_value @
          where_sql fs where_node @ '';'')"
| "ast_to_sql fs (DeleteNode table where_node) =
     Inr (''DELETE FROM '' @ table @ where_sql fs where_node @ '';'')"
| "ast_to_sql fs (AlterTableNode table action columns) =
     (if action = ''DROP COLUMN''
      then Inr (''ALTER TABLE '' @ table @ '' DROP COLUMN '' @ join '', '' columns @ '';'')
      else Inr (''ALTER TABLE '' @ table @ '' '' @ action @ '';''))"

text \<open>
  \<open>nl_to_sql\<close>, which is \<open>NLToSQLPipeline().quick_parse\<close>: tokenize, parse, generate.
  \<open>parse_text\<close> is the convenience function \<open>parse\<close> of syntax_parser.py.
\<close>

definition parse_text :: "(string \<Rightarrow> string) \<Rightarrow> string \<Rightarrow> (error + ASTNode) option" where
  "parse_text fs text = parse fs (tokenize text)"

definition nl_to_sql :: "(string \<Rightarrow> string) \<Rightarrow> string \<Rightarrow> (error + string) option" where
  "nl_to_sql fs text =
     (case parse fs (tokenize text) of
        None \<Rightarrow> None
      | Some (Inl e) \<Rightarrow> Some (Inl e)
      | Some (Inr ast) \<Rightarrow> Some (ast_to_sql fs ast))"

section \<open>Properties of the lexer\<close>

text \<open>
  C10. Operator phrases are replaced as plain substrings, with no check of word
  boundaries: the single word \<open>equality\<close>, all letters, contains the phrase
  \<open>equal\<close>, and its tokens are the operator \<open>=\<close> followed by an identifier holding
  the remaining letters \<open>ity\<close>, not one identifier for the word.
\<close>

theorem phrase_replaced_inside_word:
  "list_all isalpha ''equality'' \<and>
   tokenize ''equality'' =
     [Token EQUALS ''='' 1, Token IDENTIFIER ''ity'' 3, Token EOF [] 6]"
  by code_simp

subsection \<open>No error token\<close>

lemma read_word_not_unknown: "tok_type (fst (read_word p s)) \<noteq> UNKNOWN"
  by (auto simp: read_word_def Let_def KEYWORDS_def split: option.splits dest!: map_of_SomeD)

text \<open>One round of the loop: the end, a token that is not \<open>UNKNOWN\<close>, or a dropped
  character; the rest of the text gets shorter.\<close>

lemma scan_step:
  "(\<exists>p. scan pos s = [Token EOF [] p]) \<or>
   (\<exists>tok p2 s2. scan pos s = tok # scan p2 s2 \<and> tok_type tok \<noteq> UNKNOWN \<and> length s2 < length s) \<or>
   (\<exists>p2 s2. scan pos s = scan p2 s2 \<and> length s2 < length s)"
proof -
  define p1 where "p1 = pos + length (takeWhile isspace s)"
  define s1 where "s1 = dropWhile isspace s"
  have le: "length s1 \<le> length s"
    unfolding s1_def by (rule length_dropWhile_le)
  note sc = scan.simps [of pos s, unfolded Let_def, folded p1_def s1_def]
  show ?thesis
  proof (cases "s = [] \<or> s1 = []")
    case True
    then show ?thesis using sc by auto
  next
    case False
    then have ne: "s \<noteq> []" "s1 \<noteq> []" by auto
    consider (num) "isdigit (hd s1)"
      | (str) "\<not> isdigit (hd s1)" "hd s1 = CHR 0x22 \<or> hd s1 = CHR 0x27"
      | (word) "\<not> isdigit (hd s1)" "\<not> (hd s1 = CHR 0x22 \<or> hd s1 = CHR 0x27)"
               "isalpha (hd s1) \<or> hd s1 = CHR ''_''"
      | (op) "\<not> isdigit (hd s1)" "\<not> (hd s1 = CHR 0x22 \<or> hd s1 = CHR 0x27)"
               "\<not> (isalpha (hd s1) \<or> hd s1 = CHR ''_'')"
      by blast
    then show ?thesis
    proof cases
      case num
      obtain tok p2 s2 where rd: "read_number p1 s1 = (tok, p2, s2)"
        by (metis prod_cases3)
      have "tok_type tok = NUMBER" using rd by (auto simp: read_number_def Let_def)
      moreover have "length s2 < length s"
        using read_number_shorter [OF ne(2) num rd] le by simp
      moreover have "scan pos s = tok # scan p2 s2"
        using sc ne num rd by simp
      ultimately show ?thesis by auto
    next
      case str
      obtain tok p2 s2 where rd: "read_string p1 s1 = (tok, p2, s2)"
        by (metis prod_cases3)
      have "tok_type tok = STRING"
        using rd by (auto simp: read_string_def Let_def split: if_splits)
      moreover have "length s2 < length s"
        using read_string_shorter [OF ne(2) rd] le by simp
      moreover have "scan pos s = tok # scan p2 s2"
        using sc ne str rd by simp
      ultimately show ?thesis by auto
    next
      case word
      obtain tok p2 s2 where rd: "read_word p1 s1 = (tok, p2, s2)"
        by (metis prod_cases3)
      have "tok_type tok \<noteq> UNKNOWN"
        using read_word_not_unknown [of p1 s1] rd by simp
      moreover have "length s2 < length s"
        using read_word_shorter [OF ne(2) word(3) rd] le by simp
      moreover have "scan pos s = tok # scan p2 s2"
        using sc ne word rd by simp
      ultimately show ?thesis by auto
    next
      case op
      obtain tok p2 s2 where rd: "read_operator p1 s1 = (tok, p2, s2)"
        by (metis prod_cases3)
      have sh: "length s2 < length s"
        using read_operator_shorter [OF ne(2) rd] le by simp
      show ?thesis
      proof (cases "tok_type tok = UNKNOWN")
        case True
        then have "scan pos s = scan p2 s2" using sc ne op rd by simp
        with sh show ?thesis by auto
      next
        case False
        then have "scan pos s = tok # scan p2 s2" using sc ne op rd by simp
        with sh False show ?thesis by auto
      qed
    qed
  qed
qed

lemma scan_no_unknown: "list_all (\<lambda>t. tok_type t \<noteq> UNKNOWN) (scan pos s)"
proof (induction "length s" arbitrary: pos s rule: less_induct)
  case less
  from scan_step [of pos s] show ?case
  proof (elim disjE exE conjE)
    fix p assume "scan pos s = [Token EOF [] p]"
    then show ?thesis by simp
  next
    fix tok p2 s2
    assume "scan pos s = tok # scan p2 s2" "tok_type tok \<noteq> UNKNOWN" "length s2 < length s"
    then show ?thesis using less [of s2 p2] by simp
  next
    fix p2 s2
    assume "scan pos s = scan p2 s2" "length s2 < length s"
    then show ?thesis using less [of s2 p2] by simp
  qed
qed

lemma scan_last_eof: "scan pos s \<noteq> [] \<and> tok_type (last (scan pos s)) = EOF"
proof (induction "length s" arbitrary: pos s rule: less_induct)
  case less
  from scan_step [of pos s] show ?case
  proof (elim disjE exE conjE)
    fix p assume "scan pos s = [Token EOF [] p]"
    then show ?thesis by simp
  next
    fix tok p2 s2
    assume "scan pos s = tok # scan p2 s2" "tok_type tok \<noteq> UNKNOWN" "length s2 < length s"
    then show ?thesis using less [of s2 p2] by simp
  next
    fix p2 s2
    assume "scan pos s = scan p2 s2" "length s2 < length s"
    then show ?thesis using less [of s2 p2] by simp
  qed
qed

text \<open>
  C5. \<open>tokenize\<close> is a total function: \<open>scan\<close>, \<open>replace_from\<close> and \<open>collapse_ws\<close> are
  defined with their termination proofs, and no step of the source can raise. For every
  input the token list ends with the end-of-input token and holds no \<open>UNKNOWN\<close> token: a
  character the lexer does not know is dropped, as the \<open>#\<close> is in \<open>a # b\<close>.
\<close>

theorem tokenize_total_without_unknown:
  "tokenize text \<noteq> [] \<and>
   tok_type (last (tokenize text)) = EOF \<and>
   list_all (\<lambda>t. tok_type t \<noteq> UNKNOWN) (tokenize text) \<and>
   tokenize ''a # b'' = [Token IDENTIFIER ''a'' 0, Token IDENTIFIER ''b'' 4, Token EOF [] 5]"
proof -
  have "tokenize ''a # b'' =
          [Token IDENTIFIER ''a'' 0, Token IDENTIFIER ''b'' 4, Token EOF [] 5]"
    by code_simp
  then show ?thesis
    using scan_no_unknown [of 0 "preprocess text"] scan_last_eof [of 0 "preprocess text"]
    by (simp add: tokenize_def)
qed

subsection \<open>The order of the phrase table\<close>

text \<open>
  C2. The claim is that every phrase of the table, between a column and a number, gives
  the one operator token of that phrase. The table is not in longest-first order:
  \<open>equal to\<close> and \<open>equal\<close> stand before \<open>not equal to\<close> and \<open>not equal\<close>, so the
  shorter phrase is replaced first and \<open>age not equal to 5\<close> gives the identifier
  \<open>not\<close> followed by \<open>EQUALS\<close>, not \<open>NOT_EQUALS\<close>.
\<close>

theorem not_equal_to_is_split:
  "tokenize ''age not equal to 5'' =
     [Token IDENTIFIER ''age'' 0, Token IDENTIFIER ''not'' 4, Token EQUALS ''='' 8,
      Token NUMBER ''5'' 10, Token EOF [] 11]"
  by code_simp

section \<open>Properties of the parser and the generator\<close>

text \<open>
  C1. The claim is that \<open>insert into users values 1, 'John', 25\<close> gives
  \<open>INSERT INTO users VALUES (1, 'John', 25);\<close> with the literal as written. Preprocessing
  lowercases the whole text, the literal included, so the pipeline returns the statement
  with \<open>'john'\<close>.
\<close>

theorem insert_scenario_lowercases_literal:
  "nl_to_sql fs ''insert into users values 1, 'John', 25'' =
     Some (Inr (''INSERT INTO users VALUES (1, '' @ [CHR 0x27] @ ''john'' @ [CHR 0x27] @
                '', 25);''))"
  by code_simp

text \<open>
  C3. The claim is that every \<open>SelectNode\<close> a successful parse returns has a non-empty
  table. The input \<open>find\<close> parses successfully to a \<open>SelectNode\<close> whose table is \<open>None\<close>,
  and the generator prints it as \<open>FROM None\<close>; \<open>count\<close> does the same.
\<close>

theorem find_without_table_parses:
  "parse_text fs ''find'' = Some (Inr (SelectNode [Some ''*''] None None None None False None)) \<and>
   nl_to_sql fs ''find'' = Some (Inr ''SELECT * FROM None;'') \<and>
   parse_text fs ''count'' =
     Some (Inr (SelectNode [Some ''COUNT(*)''] None None None None False
                  (Some (AggregateNode ''COUNT'' None))))"
  by code_simp

text \<open>
  C6. The claim is that parsing a \<open>NUMBER\<close> token of the tokenizer gives a float when
  the lexeme has a point and an integer otherwise, and raises nothing but ParseError.
  \<open>_read_number\<close> takes any run of digits and points, so \<open>1.2.3\<close> is one \<open>NUMBER\<close> token;
  \<open>float\<close> rejects it and the parse raises ValueError.
\<close>

theorem number_with_two_points_raises_value_error:
  "tokenize ''select users where age > 1.2.3'' =
     [Token SELECT ''select'' 0, Token IDENTIFIER ''users'' 7, Token WHERE ''where'' 13,
      Token IDENTIFIER ''age'' 19, Token GREATER ''>'' 23, Token NUMBER ''1.2.3'' 25,
      Token EOF [] 30] \<and>
   parse_value [Token NUMBER ''1.2.3'' 25] 0 = Inl ValueError \<and>
   parse_text fs ''select users where age > 1.2.3'' = Some (Inl ValueError)"
  by code_simp

text \<open>
  C7. The two connectives are rendered differently: \<open>And\<close> joins its two sides with
  \<open>AND\<close> and no parentheses, \<open>Or\<close> joins them with \<open>OR\<close> inside parentheses, for all
  subtrees. In the pipeline, \<open>a = 1 and b = 2 or c = 3\<close> is printed with one pair of
  parentheses, around the whole \<open>Or\<close>.
\<close>

theorem and_plain_or_parenthesized:
  "condition_to_sql fs (AndCondition l r) =
     condition_to_sql fs l @ '' AND '' @ condition_to_sql fs r \<and>
   condition_to_sql fs (OrCondition l r) =
     ''('' @ condition_to_sql fs l @ '' OR '' @ condition_to_sql fs r @ '')'' \<and>
   nl_to_sql fs ''select users where a = 1 and b = 2 or c = 3'' =
     Some (Inr ''SELECT * FROM users WHERE (a = 1 AND b = 2 OR c = 3);'')"
proof -
  have "nl_to_sql fs ''select users where a = 1 and b = 2 or c = 3'' =
          Some (Inr ''SELECT * FROM users WHERE (a = 1 AND b = 2 OR c = 3);'')"
    by code_simp
  then show ?thesis by simp
qed

text \<open>
  C8. A \<open>Like\<close> condition prints the column, \<open>LIKE\<close> and the pattern in single quotes;
  the pattern is put between two \<open>%\<close> exactly when it holds no \<open>%\<close>. In the pipeline
  \<open>find users where name contains 'an'\<close> gives
  \<open>SELECT * FROM users WHERE name LIKE '%an%';\<close>.
\<close>

theorem like_pattern_wrapped:
  "condition_to_sql fs (LikeCondition column pattern) =
     column @ '' LIKE '' @ [CHR 0x27] @
       (if CHR ''%'' \<in> set pattern then pattern else ''%'' @ pattern @ ''%'') @ [CHR 0x27] \<and>
   nl_to_sql fs (''find users where name contains '' @ [CHR 0x27] @ ''an'' @ [CHR 0x27]) =
     Some (Inr (''SELECT * FROM users WHERE name LIKE '' @ [CHR 0x27] @ ''%an%'' @
                [CHR 0x27] @ '';''))"
proof -
  have "nl_to_sql fs (''find users where name contains '' @ [CHR 0x27] @ ''an'' @ [CHR 0x27]) =
          Some (Inr (''SELECT * FROM users WHERE name LIKE '' @ [CHR 0x27] @ ''%an%'' @
                     [CHR 0x27] @ '';''))"
    by code_simp
  then show ?thesis by simp
qed

end
